theory Spec2Isabelle
  imports Main "HOL-Library.Multiset"
begin

section \<open>Python strings and slices\<close>

text \<open>
  A Python \<open>str\<close> is modelled as a \<^typ>\<open>string\<close>: one \<^typ>\<open>char\<close> per character, for
  characters with a code point below 256, so that \<^const>\<open>length\<close> is Python's \<open>len\<close>.
  \<open>is_space\<close> is \<open>str.isspace\<close> on that range: the characters \<open>str.strip()\<close> removes.
\<close>

definition is_space :: "char \<Rightarrow> bool" where
  "is_space c = (c \<in> set [CHR 0x09, CHR 0x0A, CHR 0x0B, CHR 0x0C, CHR 0x0D,
                           CHR 0x1C, CHR 0x1D, CHR 0x1E, CHR 0x1F, CHR 0x20,
                           CHR 0x85, CHR 0xA0])"

definition lstrip :: "string \<Rightarrow> string" where
  "lstrip s = dropWhile is_space s"

definition rstrip :: "string \<Rightarrow> string" where
  "rstrip s = rev (dropWhile is_space (rev s))"

text \<open>\<open>s.strip()\<close>\<close>

definition strip :: "string \<Rightarrow> string" where
  "strip s = rstrip (lstrip s)"

text \<open>\<open>s[:n]\<close> for an integer \<open>n\<close>: a negative \<open>n\<close> counts from the end.\<close>

definition slice_to :: "int \<Rightarrow> 'a list \<Rightarrow> 'a list" where
  "slice_to n xs = (if 0 \<le> n then take (nat n) xs else take (length xs - nat (- n)) xs)"

text \<open>\<open>s[-n:]\<close> for a positive literal \<open>n\<close>: the last \<open>n\<close> elements, all of \<open>s\<close> when it is shorter.\<close>

definition slice_last :: "nat \<Rightarrow> 'a list \<Rightarrow> 'a list" where
  "slice_last n xs = drop (length xs - n) xs"

section \<open>Chunker (audio.py)\<close>

text \<open>\<open>CHUNK_LIMIT = 4000\<close>\<close>

definition CHUNK_LIMIT :: int where
  "CHUNK_LIMIT = 4000"

text \<open>
  The loop of \<open>_split_sentences\<close>: the characters still to read, then the loop variables
  \<open>parts\<close> and \<open>current\<close>.
\<close>

fun split_sentences_loop :: "string \<Rightarrow> string list \<Rightarrow> string \<Rightarrow> string list \<times> string" where
  "split_sentences_loop [] parts current = (parts, current)"
| "split_sentences_loop (c # cs) parts current =
     (if c \<in> set ''.!?'' \<and> length (current @ [c]) > 1
      then split_sentences_loop cs (parts @ [current @ [c]]) ''''
      else split_sentences_loop cs parts (current @ [c]))"

definition split_sentences :: "string \<Rightarrow> string list" where
  "split_sentences text =
     (case split_sentences_loop text [] '''' of
        (parts, current) \<Rightarrow> if current \<noteq> '''' then parts @ [current] else parts)"

text \<open>
  The loop of \<open>split_into_chunks\<close> over the sentences, with the loop variables \<open>chunks\<close>
  and \<open>current\<close>.
\<close>

fun chunks_loop :: "int \<Rightarrow> string list \<Rightarrow> string list \<Rightarrow> string \<Rightarrow> string list \<times> string" where
  "chunks_loop limit [] chunks current = (chunks, current)"
| "chunks_loop limit (sentence # rest) chunks current =
     (if current \<noteq> '''' \<and> int (length current) + int (length sentence) > limit
      then chunks_loop limit rest (chunks @ [strip current]) sentence
      else chunks_loop limit rest chunks (current @ sentence))"

definition split_into_chunks :: "string \<Rightarrow> int \<Rightarrow> string list" where
  "split_into_chunks text limit =
     (if int (length text) \<le> limit then [text]
      else
        (case chunks_loop limit (split_sentences text) [] '''' of
           (chunks, current) \<Rightarrow>
             (let chunks' = (if strip current \<noteq> '''' then chunks @ [strip current] else chunks)
              in if chunks' \<noteq> [] then chunks' else [slice_to limit text])))"

section \<open>Configuration (config.py)\<close>

text \<open>\<open>VoiceConfig\<close>: one voice id per speaker role.\<close>

record voice_config =
  anchor :: string
  host :: string
  cohost :: string
  moderator :: string
  sidea :: string
  sideb :: string
  narrator :: string

text \<open>
  \<open>NewsroomConfig\<close>. Here and below, the field \<open>f\<close> of a class is the selector
  \<open>cfg_f\<close>, \<open>seg_f\<close>, ... of its record, so that the functions keep the source's
  names for their variables; the fields of \<open>VoiceConfig\<close> keep their names, which
  \<open>getattr\<close> looks up.
\<close>

record newsroom_config =
  cfg_voices :: voice_config
  cfg_model :: string
  cfg_output_format :: string
  cfg_openai_model :: string
  cfg_data_dir :: string

definition default_voices :: voice_config where
  "default_voices =
     \<lparr>anchor = ''cjVigY5qzO86Huf0OWal'', host = ''cjVigY5qzO86Huf0OWal'',
      cohost = ''TX3LPaxmHKxFdv7VOQHJ'', moderator = ''cjVigY5qzO86Huf0OWal'',
      sidea = ''TX3LPaxmHKxFdv7VOQHJ'', sideb = ''EXAVITQu4vr4xnSAxGW1'',
      narrator = ''nPczCjz82KWdKScP46A1''\<rparr>"

definition default_config :: newsroom_config where
  "default_config =
     \<lparr>cfg_voices = default_voices, cfg_model = ''eleven_v3'',
      cfg_output_format = ''mp3_44100_128'', cfg_openai_model = ''gpt-5-mini'',
      cfg_data_dir = ''~/.clawd/skills/newsroom''\<rparr>"

text \<open>\<open>VOICE_MAP\<close> and \<open>SPEAKER_ALIASES\<close>: dictionaries written as association lists.\<close>

definition VOICE_MAP :: "(string \<times> (string \<times> string) list) list" where
  "VOICE_MAP =
     [(''news'', [(''anchor'', ''anchor'')]),
      (''podcast'', [(''host'', ''host''), (''cohost'', ''cohost'')]),
      (''debate'', [(''moderator'', ''moderator''), (''sidea'', ''sidea''), (''sideb'', ''sideb'')]),
      (''narrative'', [(''narrator'', ''narrator'')])]"

definition SPEAKER_ALIASES :: "(string \<times> string) list" where
  "SPEAKER_ALIASES =
     [(''anchor'', ''anchor''), (''host'', ''host''), (''co-host'', ''cohost''),
      (''cohost'', ''cohost''), (''moderator'', ''moderator''), (''side-a'', ''sidea''),
      (''sidea'', ''sidea''), (''side-b'', ''sideb''), (''sideb'', ''sideb''),
      (''narrator'', ''narrator'')]"

text \<open>\<open>d.get(k, default)\<close>\<close>

definition dict_get :: "('k \<times> 'v) list \<Rightarrow> 'k \<Rightarrow> 'v \<Rightarrow> 'v" where
  "dict_get d k dflt = (case map_of d k of None \<Rightarrow> dflt | Some v \<Rightarrow> v)"

text \<open>
  \<open>str.lower()\<close> on characters below code point 256: the letters A to Z and the
  upper-case letters of Latin-1 (\<open>0xC0\<close> to \<open>0xDE\<close> without the multiplication sign).
\<close>

definition uppercase :: string where
  "uppercase = ''ABCDEFGHIJKLMNOPQRSTUVWXYZ'' @
     [CHR 0xC0, CHR 0xC1, CHR 0xC2, CHR 0xC3, CHR 0xC4, CHR 0xC5, CHR 0xC6, CHR 0xC7,
      CHR 0xC8, CHR 0xC9, CHR 0xCA, CHR 0xCB, CHR 0xCC, CHR 0xCD, CHR 0xCE, CHR 0xCF,
      CHR 0xD0, CHR 0xD1, CHR 0xD2, CHR 0xD3, CHR 0xD4, CHR 0xD5, CHR 0xD6,
      CHR 0xD8, CHR 0xD9, CHR 0xDA, CHR 0xDB, CHR 0xDC, CHR 0xDD, CHR 0xDE]"

definition lowercase :: string where
  "lowercase = ''abcdefghijklmnopqrstuvwxyz'' @
     [CHR 0xE0, CHR 0xE1, CHR 0xE2, CHR 0xE3, CHR 0xE4, CHR 0xE5, CHR 0xE6, CHR 0xE7,
      CHR 0xE8, CHR 0xE9, CHR 0xEA, CHR 0xEB, CHR 0xEC, CHR 0xED, CHR 0xEE, CHR 0xEF,
      CHR 0xF0, CHR 0xF1, CHR 0xF2, CHR 0xF3, CHR 0xF4, CHR 0xF5, CHR 0xF6,
      CHR 0xF8, CHR 0xF9, CHR 0xFA, CHR 0xFB, CHR 0xFC, CHR 0xFD, CHR 0xFE]"

definition lower_char :: "char \<Rightarrow> char" where
  "lower_char c = (case map_of (zip uppercase lowercase) c of None \<Rightarrow> c | Some l \<Rightarrow> l)"

definition lower :: "string \<Rightarrow> string" where
  "lower s = map lower_char s"

text \<open>
  \<open>getattr(config.voices, name, default)\<close>: the declared fields of \<open>VoiceConfig\<close> by name,
  the default for any other name. The attributes a pydantic model has besides its fields
  (its methods) are not strings and are left out: \<open>resolve_voice_id\<close> returns a \<open>str\<close>.
\<close>

definition voice_attr :: "voice_config \<Rightarrow> (string \<times> string) list" where
  "voice_attr v =
     [(''anchor'', anchor v), (''host'', host v), (''cohost'', cohost v),
      (''moderator'', moderator v), (''sidea'', sidea v), (''sideb'', sideb v),
      (''narrator'', narrator v)]"

definition getattr_voice :: "voice_config \<Rightarrow> string \<Rightarrow> string \<Rightarrow> string" where
  "getattr_voice v attr dflt = dict_get (voice_attr v) attr dflt"

text \<open>
  \<open>resolve_voice_id\<close>. \<open>VOICE_MAP.get(format_name, {}).get(normalized)\<close> is \<open>None\<close> when
  either lookup misses; \<open>if voice_field:\<close> holds for a non-empty string.
\<close>

definition resolve_voice_id :: "string \<Rightarrow> string \<Rightarrow> newsroom_config \<Rightarrow> string" where
  "resolve_voice_id role format_name config =
     (let normalized = dict_get SPEAKER_ALIASES (lower role) (lower role);
          voice_field = map_of (dict_get VOICE_MAP format_name []) normalized
      in case voice_field of
           Some field \<Rightarrow>
             if field \<noteq> ''''
             then getattr_voice (cfg_voices config) field (anchor (cfg_voices config))
             else getattr_voice (cfg_voices config) normalized (anchor (cfg_voices config))
         | None \<Rightarrow> getattr_voice (cfg_voices config) normalized (anchor (cfg_voices config)))"

section \<open>Data model (models.py)\<close>

datatype format = NEWS | PODCAST | DEBATE | NARRATIVE

fun format_value :: "format \<Rightarrow> string" where
  "format_value NEWS = ''news''"
| "format_value PODCAST = ''podcast''"
| "format_value DEBATE = ''debate''"
| "format_value NARRATIVE = ''narrative''"

record segment =
  seg_index :: int
  seg_speaker :: string
  seg_text :: string
  seg_emotion_tag :: string
  seg_raw_text :: string

record script =
  script_format :: format
  script_topic :: string
  script_segments :: "segment list"

text \<open>
  A \<open>pathlib.Path\<close> to a file: the directory (\<open>.parent\<close>, rendered) and the file name
  (\<open>.name\<close>). File names hold no path separator.
\<close>

record path =
  path_parent :: string
  path_name :: string

record generated_audio =
  ga_segment_index :: int
  ga_file_path :: path
  ga_request_id :: string
  ga_voice_id :: string

section \<open>Errors, indexing and ranges\<close>

text \<open>
  The exceptions of the pipeline: \<open>IndexError\<close> of a list access, the \<open>RuntimeError\<close>
  of \<open>concat_final\<close> with its message, \<open>subprocess.CalledProcessError\<close> of a merge
  process that exits non-zero, and a failure raised by the synthesis client.
\<close>

datatype error =
    IndexError
  | RuntimeError string
  | CalledProcessError
  | SynthesisFailure string

text \<open>\<open>xs[i]\<close>: a negative index counts from the end, an index out of range raises.\<close>

definition py_index :: "'a list \<Rightarrow> int \<Rightarrow> error + 'a" where
  "py_index xs i =
     (let n = int (length xs)
      in if 0 \<le> i \<and> i < n then Inr (xs ! nat i)
         else if - n \<le> i \<and> i < 0 then Inr (xs ! nat (n + i))
         else Inl IndexError)"

text \<open>\<open>range(start, stop)\<close> and \<open>range(start, stop, -1)\<close>\<close>

definition range_up :: "int \<Rightarrow> int \<Rightarrow> int list" where
  "range_up start stop = map (\<lambda>k. start + int k) [0..<nat (stop - start)]"

definition range_down :: "int \<Rightarrow> int \<Rightarrow> int list" where
  "range_down start stop = map (\<lambda>k. start - int k) [0..<nat (start - stop)]"

text \<open>\<open>x or None\<close> for a string or a list \<open>x\<close>\<close>

definition or_none :: "'a list \<Rightarrow> 'a list option" where
  "or_none x = (if x = [] then None else Some x)"

section \<open>Context resolver (audio.py)\<close>

text \<open>
  The two loops of \<open>_get_adjacent_text\<close> over their index ranges. Each returns the value
  of \<open>prev_text\<close> (\<open>next_text\<close>) after the loop: the slice of the first matching
  segment, where the loop breaks, or the initial empty string.
\<close>

fun look_backward :: "segment list \<Rightarrow> string \<Rightarrow> newsroom_config \<Rightarrow> int list \<Rightarrow> error + string" where
  "look_backward segments voice_id config [] = Inr ''''"
| "look_backward segments voice_id config (i # rest) =
     (case py_index segments i of
        Inl e \<Rightarrow> Inl e
      | Inr seg \<Rightarrow>
          if resolve_voice_id (seg_speaker seg) '''' config = voice_id
          then Inr (slice_last 200 (seg_text seg))
          else look_backward segments voice_id config rest)"

fun look_forward :: "segment list \<Rightarrow> string \<Rightarrow> newsroom_config \<Rightarrow> int list \<Rightarrow> error + string" where
  "look_forward segments voice_id config [] = Inr ''''"
| "look_forward segments voice_id config (i # rest) =
     (case py_index segments i of
        Inl e \<Rightarrow> Inl e
      | Inr seg \<Rightarrow>
          if resolve_voice_id (seg_speaker seg) '''' config = voice_id
          then Inr (take 200 (seg_text seg))
          else look_forward segments voice_id config rest)"

definition get_adjacent_text ::
  "segment list \<Rightarrow> int \<Rightarrow> string \<Rightarrow> newsroom_config \<Rightarrow> error + (string \<times> string)" where
  "get_adjacent_text segments idx voice_id config =
     (case look_backward segments voice_id config (range_down (idx - 1) (max (idx - 4) (- 1))) of
        Inl e \<Rightarrow> Inl e
      | Inr prev_text \<Rightarrow>
          (case look_forward segments voice_id config
                  (range_up (idx + 1) (min (idx + 4) (int (length segments)))) of
             Inl e \<Rightarrow> Inl e
           | Inr next_text \<Rightarrow> Inr (prev_text, next_text)))"



section \<open>The world outside: files, the synthesis service, the merge process\<close>

text \<open>
  The keyword arguments of \<open>client.text_to_speech.with_raw_response.convert\<close>: what the
  synthesis service receives for one request.
\<close>

record convert_args =
  arg_text :: string
  arg_voice_id :: string
  arg_model_id :: string
  arg_output_format :: string
  arg_previous_text :: "string option"
  arg_next_text :: "string option"
  arg_previous_request_ids :: "string list option"

text \<open>The response: the \<open>request-id\<close> header, when there is one, and the audio bytes.\<close>

record tts_response =
  resp_request_id :: "string option"
  resp_data :: string

text \<open>
  The state the pipeline acts on: the files that exist, with their contents, and the
  requests sent to the synthesis service so far, oldest first. Directories and the
  errors of the operating system (a write that fails) are not modelled.
\<close>

record world =
  w_files :: "path \<rightharpoonup> string"
  w_sent :: "convert_args list"

text \<open>
  The two external collaborators are parameters. The synthesis client answers a request,
  knowing the requests before it, with a response or a failure (its message). The merge
  process \<open>ffmpeg -f concat -i manifest -c copy output\<close> reads the files, and returns
  whether it exited with status zero and the files afterwards.
\<close>

type_synonym tts_client = "convert_args list \<Rightarrow> convert_args \<Rightarrow> string + tts_response"

type_synonym merge_process = "(path \<rightharpoonup> string) \<Rightarrow> path \<Rightarrow> path \<Rightarrow> bool \<times> (path \<rightharpoonup> string)"

definition path_exists :: "world \<Rightarrow> path \<Rightarrow> bool" where
  "path_exists w p = (w_files w p \<noteq> None)"

definition write_file :: "path \<Rightarrow> string \<Rightarrow> world \<Rightarrow> world" where
  "write_file p content w = w\<lparr>w_files := (w_files w)(p \<mapsto> content)\<rparr>"

text \<open>\<open>p.unlink(missing_ok=True)\<close>\<close>

definition unlink :: "path \<Rightarrow> world \<Rightarrow> world" where
  "unlink p w = w\<lparr>w_files := (w_files w)(p := None)\<rparr>"

text \<open>\<open>directory / file_name\<close>, \<open>str(p)\<close> and \<open>p.stem\<close>\<close>

definition joinpath :: "string \<Rightarrow> string \<Rightarrow> path" where
  "joinpath directory file_name = \<lparr>path_parent = directory, path_name = file_name\<rparr>"

definition path_str :: "path \<Rightarrow> string" where
  "path_str p = path_parent p @ ''/'' @ path_name p"

definition rfind :: "char \<Rightarrow> string \<Rightarrow> int" where
  "rfind c s =
     (if c \<in> set s then int (length s) - 1 - int (length (takeWhile (\<lambda>x. x \<noteq> c) (rev s)))
      else - 1)"

definition stem :: "path \<Rightarrow> string" where
  "stem p =
     (let i = rfind CHR ''.'' (path_name p)
      in if 0 < i \<and> i < int (length (path_name p)) - 1 then take (nat i) (path_name p)
         else path_name p)"

text \<open>\<open>sep.join(xs)\<close>\<close>

fun join :: "string \<Rightarrow> string list \<Rightarrow> string" where
  "join sep [] = []"
| "join sep [x] = x"
| "join sep (x # y # ys) = x @ sep @ join sep (y # ys)"

text \<open>The manifest of a merge: one line \<open>file '<path>'\<close> per input, joined by newlines.\<close>

definition manifest :: "path list \<Rightarrow> string" where
  "manifest files = join [CHR 0x0A] (map (\<lambda>f. ''file '' @ [CHR 0x27] @ path_str f @ [CHR 0x27]) files)"

text \<open>Decimal digits of a natural number, and \<open>f"{i:03d}"\<close>: zero-padded to width 3, sign included.\<close>

fun digits :: "nat \<Rightarrow> string" where
  "digits n =
     (if n < 10 then [''0123456789'' ! n]
      else digits (n div 10) @ [''0123456789'' ! (n mod 10)])"

definition fmt_03d :: "int \<Rightarrow> string" where
  "fmt_03d i =
     (let sign = (if i < 0 then ''-'' else ''''); ds = digits (nat \<bar>i\<bar>)
      in sign @ replicate (3 - length sign - length ds) CHR ''0'' @ ds)"

section \<open>Continuity tracker (audio.py)\<close>

text \<open>
  \<open>voice_request_ids\<close> is a \<open>defaultdict(list)\<close>: every voice has a list, empty until
  an id is appended. \<open>history_for\<close> is the read \<open>voice_request_ids[voice_id][-3:]\<close>;
  \<open>record_id\<close> is \<open>if request_id: voice_request_ids[voice_id].append(request_id)\<close>.
\<close>

type_synonym tracker = "string \<Rightarrow> string list"

definition empty_tracker :: tracker where
  "empty_tracker = (\<lambda>voice_id. [])"

definition history_for :: "tracker \<Rightarrow> string \<Rightarrow> string list" where
  "history_for voice_request_ids voice_id = slice_last 3 (voice_request_ids voice_id)"

definition record_id :: "tracker \<Rightarrow> string \<Rightarrow> string \<Rightarrow> tracker" where
  "record_id voice_request_ids voice_id request_id =
     (if request_id \<noteq> ''''
      then voice_request_ids(voice_id := voice_request_ids voice_id @ [request_id])
      else voice_request_ids)"

section \<open>Synthesizer and assembler (audio.py)\<close>

text \<open>
  The request \<open>_generate_segment\<close> sends: under the model \<open>eleven_v3\<close> the two context
  strings and the previous request ids are replaced by \<open>None\<close> before the call.
\<close>

definition convert_request ::
  "string \<Rightarrow> string \<Rightarrow> string \<Rightarrow> string \<Rightarrow> string option \<Rightarrow> string option \<Rightarrow> string list option
   \<Rightarrow> convert_args" where
  "convert_request text voice_id model_id output_format previous_text next_text previous_request_ids =
     (if model_id = ''eleven_v3''
      then \<lparr>arg_text = text, arg_voice_id = voice_id, arg_model_id = model_id,
            arg_output_format = output_format, arg_previous_text = None, arg_next_text = None,
            arg_previous_request_ids = None\<rparr>
      else \<lparr>arg_text = text, arg_voice_id = voice_id, arg_model_id = model_id,
            arg_output_format = output_format, arg_previous_text = previous_text,
            arg_next_text = next_text, arg_previous_request_ids = previous_request_ids\<rparr>)"

text \<open>
  \<open>_generate_segment\<close>: one call of the client; on a response, the audio is written to
  \<open>out_path\<close> and the \<open>request-id\<close> header (\<open>""\<close> when absent) is returned.
\<close>

definition generate_segment ::
  "tts_client \<Rightarrow> string \<Rightarrow> string \<Rightarrow> string \<Rightarrow> string \<Rightarrow> string option \<Rightarrow> string option
   \<Rightarrow> string list option \<Rightarrow> path \<Rightarrow> world \<Rightarrow> (error + string) \<times> world" where
  "generate_segment client text voice_id model_id output_format previous_text next_text
       previous_request_ids out_path w =
     (let request = convert_request text voice_id model_id output_format previous_text next_text
                      previous_request_ids;
          w1 = w\<lparr>w_sent := w_sent w @ [request]\<rparr>
      in case client (w_sent w) request of
           Inl failure \<Rightarrow> (Inl (SynthesisFailure failure), w1)
         | Inr response \<Rightarrow>
             (Inr (case resp_request_id response of None \<Rightarrow> '''' | Some request_id \<Rightarrow> request_id),
              write_file out_path (resp_data response) w1))"

text \<open>
  \<open>_concat_files\<close>: the manifest is written, the merge process runs, and the manifest is
  removed whether the process succeeded or not.
\<close>

definition concat_files :: "merge_process \<Rightarrow> path list \<Rightarrow> path \<Rightarrow> world \<Rightarrow> (error + unit) \<times> world" where
  "concat_files ffmpeg files output w =
     (let concat_txt = joinpath (path_parent output) (stem output @ ''_concat.txt'');
          w1 = write_file concat_txt (manifest files) w;
          (ok, fs) = ffmpeg (w_files w1) concat_txt output;
          w2 = unlink concat_txt (w1\<lparr>w_files := fs\<rparr>)
      in if ok then (Inr (), w2) else (Inl CalledProcessError, w2))"

text \<open>
  The body of the loop over \<open>enumerate(chunks)\<close> in \<open>generate_audio\<close>, for the pair
  \<open>(ci, chunk_text)\<close>, on the loop's variables \<open>chunk_files\<close> and \<open>voice_request_ids\<close>.
\<close>

definition chunk_body ::
  "tts_client \<Rightarrow> newsroom_config \<Rightarrow> string \<Rightarrow> segment \<Rightarrow> string \<Rightarrow> string \<Rightarrow> string \<Rightarrow> string list
   \<Rightarrow> string list \<Rightarrow> nat \<times> string \<Rightarrow> path list \<Rightarrow> tracker \<Rightarrow> world
   \<Rightarrow> (error + path list \<times> tracker) \<times> world" where
  "chunk_body client config audio_dir seg voice_id prev_text next_text prev_ids chunks item
       chunk_files voice_request_ids w =
     (let ci = fst item; chunk_text = snd item;
          out_path =
            (if length chunks > 1
             then joinpath audio_dir
                    (fmt_03d (seg_index seg) @ ''_'' @ seg_speaker seg @ ''_chunk'' @ digits ci @ ''.mp3'')
             else joinpath audio_dir (fmt_03d (seg_index seg) @ ''_'' @ seg_speaker seg @ ''.mp3''))
      in case (if ci > 0 then map_sum id (slice_last 200) (py_index chunks (int ci - 1))
               else Inr prev_text) of
           Inl e \<Rightarrow> (Inl e, w)
         | Inr chunk_prev \<Rightarrow>
             (case (if int ci < int (length chunks) - 1
                    then map_sum id (take 200) (py_index chunks (int ci + 1))
                    else Inr next_text) of
                Inl e \<Rightarrow> (Inl e, w)
              | Inr chunk_next \<Rightarrow>
                  (case generate_segment client chunk_text voice_id (cfg_model config)
                          (cfg_output_format config) (or_none chunk_prev) (or_none chunk_next)
                          (or_none prev_ids) out_path w of
                     (Inl e, w') \<Rightarrow> (Inl e, w')
                   | (Inr request_id, w') \<Rightarrow>
                       (Inr (chunk_files @ [out_path],
                             record_id voice_request_ids voice_id request_id), w'))))"

fun chunk_loop ::
  "tts_client \<Rightarrow> newsroom_config \<Rightarrow> string \<Rightarrow> segment \<Rightarrow> string \<Rightarrow> string \<Rightarrow> string \<Rightarrow> string list
   \<Rightarrow> string list \<Rightarrow> (nat \<times> string) list \<Rightarrow> path list \<Rightarrow> tracker \<Rightarrow> world
   \<Rightarrow> (error + path list \<times> tracker) \<times> world" where
  "chunk_loop client config audio_dir seg voice_id prev_text next_text prev_ids chunks []
       chunk_files voice_request_ids w = (Inr (chunk_files, voice_request_ids), w)"
| "chunk_loop client config audio_dir seg voice_id prev_text next_text prev_ids chunks (item # rest)
       chunk_files voice_request_ids w =
     (case chunk_body client config audio_dir seg voice_id prev_text next_text prev_ids chunks item
             chunk_files voice_request_ids w of
        (Inl e, w') \<Rightarrow> (Inl e, w')
      | (Inr (chunk_files', voice_request_ids'), w') \<Rightarrow>
          chunk_loop client config audio_dir seg voice_id prev_text next_text prev_ids chunks rest
            chunk_files' voice_request_ids' w')"

text \<open>
  The body of the loop over \<open>script.segments\<close>, on the loop's variables \<open>results\<close> and
  \<open>voice_request_ids\<close>. The progress line it prints is left out. The history
  \<open>prev_ids\<close> is read once, before the loop over the chunks.
\<close>

definition turn_body ::
  "tts_client \<Rightarrow> merge_process \<Rightarrow> script \<Rightarrow> newsroom_config \<Rightarrow> string \<Rightarrow> segment
   \<Rightarrow> generated_audio list \<Rightarrow> tracker \<Rightarrow> world
   \<Rightarrow> (error + generated_audio list \<times> tracker) \<times> world" where
  "turn_body client ffmpeg script config audio_dir seg results voice_request_ids w =
     (let voice_id = resolve_voice_id (seg_speaker seg) (format_value (script_format script)) config
      in case get_adjacent_text (script_segments script) (seg_index seg) voice_id config of
           Inl e \<Rightarrow> (Inl e, w)
         | Inr (prev_text, next_text) \<Rightarrow>
             (let prev_ids = history_for voice_request_ids voice_id;
                  chunks = split_into_chunks (seg_text seg) CHUNK_LIMIT
              in case chunk_loop client config audio_dir seg voice_id prev_text next_text prev_ids
                        chunks (enumerate 0 chunks) [] voice_request_ids w of
                   (Inl e, w1) \<Rightarrow> (Inl e, w1)
                 | (Inr (chunk_files, voice_request_ids'), w1) \<Rightarrow>
                     (case (if length chunk_files > 1
                            then (let final_path = joinpath audio_dir
                                        (fmt_03d (seg_index seg) @ ''_'' @ seg_speaker seg @ ''.mp3'')
                                  in case concat_files ffmpeg chunk_files final_path w1 of
                                       (Inl e, w2) \<Rightarrow> (Inl e, w2)
                                     | (Inr u, w2) \<Rightarrow> (Inr final_path, fold unlink chunk_files w2))
                            else (case chunk_files of
                                    [] \<Rightarrow> (Inl IndexError, w1)
                                  | first # others \<Rightarrow> (Inr first, w1))) of
                        (Inl e, w2) \<Rightarrow> (Inl e, w2)
                      | (Inr final_path, w2) \<Rightarrow>
                          (Inr (results @
                                  [\<lparr>ga_segment_index = seg_index seg, ga_file_path = final_path,
                                    ga_request_id =
                                      (if voice_request_ids' voice_id \<noteq> []
                                       then last (voice_request_ids' voice_id) else ''''),
                                    ga_voice_id = voice_id\<rparr>],
                                voice_request_ids'), w2))))"

fun turn_loop ::
  "tts_client \<Rightarrow> merge_process \<Rightarrow> script \<Rightarrow> newsroom_config \<Rightarrow> string \<Rightarrow> segment list
   \<Rightarrow> generated_audio list \<Rightarrow> tracker \<Rightarrow> world
   \<Rightarrow> (error + generated_audio list \<times> tracker) \<times> world" where
  "turn_loop client ffmpeg script config audio_dir [] results voice_request_ids w =
     (Inr (results, voice_request_ids), w)"
| "turn_loop client ffmpeg script config audio_dir (seg # rest) results voice_request_ids w =
     (case turn_body client ffmpeg script config audio_dir seg results voice_request_ids w of
        (Inl e, w') \<Rightarrow> (Inl e, w')
      | (Inr (results', voice_request_ids'), w') \<Rightarrow>
          turn_loop client ffmpeg script config audio_dir rest results' voice_request_ids' w')"

text \<open>
  \<open>generate_audio\<close>: the loop over the turns in script order, from an empty tracker. The
  client it would construct is the parameter \<open>client\<close>.
\<close>

definition generate_audio ::
  "tts_client \<Rightarrow> merge_process \<Rightarrow> script \<Rightarrow> newsroom_config \<Rightarrow> string \<Rightarrow> world
   \<Rightarrow> (error + generated_audio list) \<times> world" where
  "generate_audio client ffmpeg script config audio_dir w =
     (case turn_loop client ffmpeg script config audio_dir (script_segments script) []
             empty_tracker w of
        (Inl e, w') \<Rightarrow> (Inl e, w')
      | (Inr (results, voice_request_ids), w') \<Rightarrow> (Inr results, w'))"

text \<open>
  \<open>concat_final\<close>. \<open>final_file_paths\<close> is its list \<open>file_paths\<close>: the artifacts sorted
  by \<open>segment_index\<close> (Python's \<open>sorted\<close> is stable, as \<^const>\<open>sort_key\<close> is), those
  whose file exists, their paths.
\<close>

definition final_file_paths :: "world \<Rightarrow> generated_audio list \<Rightarrow> path list" where
  "final_file_paths w audio_files =
     (let sorted_files = sort_key ga_segment_index audio_files
      in map ga_file_path (filter (\<lambda>a. path_exists w (ga_file_path a)) sorted_files))"

definition concat_final ::
  "merge_process \<Rightarrow> generated_audio list \<Rightarrow> path \<Rightarrow> world \<Rightarrow> (error + path) \<times> world" where
  "concat_final ffmpeg audio_files output w =
     (let file_paths = final_file_paths w audio_files
      in if file_paths = [] then (Inl (RuntimeError ''No audio files to concatenate''), w)
         else
           (let concat_txt = joinpath (path_parent output) ''concat.txt'';
                w1 = write_file concat_txt (manifest file_paths) w;
                (ok, fs) = ffmpeg (w_files w1) concat_txt output
            in if ok then (Inr output, w1\<lparr>w_files := fs\<rparr>)
               else (Inl CalledProcessError, w1\<lparr>w_files := fs\<rparr>)))"

text \<open>
  The specification's wording of the chunk-level override, to compare with the code: the
  previous context of chunk \<open>i\<close> is the last 200 characters of chunk \<open>i - 1\<close> when
  \<open>i > 0\<close>, else the turn-level \<open>previousText\<close>; its next context is the first 200
  characters of chunk \<open>i + 1\<close> when \<open>i\<close> is not the last chunk, else the turn-level
  \<open>nextText\<close>.
\<close>

definition spec_chunk_previousText :: "string list \<Rightarrow> nat \<Rightarrow> string \<Rightarrow> string" where
  "spec_chunk_previousText chunks i previousText =
     (if i > 0 then slice_last 200 (chunks ! (i - 1)) else previousText)"

definition spec_chunk_nextText :: "string list \<Rightarrow> nat \<Rightarrow> string \<Rightarrow> string" where
  "spec_chunk_nextText chunks i nextText =
     (if i + 1 < length chunks then take 200 (chunks ! (i + 1)) else nextText)"

section \<open>Example inputs\<close>

text \<open>
  The three turns of the specification's first scenario, as a podcast: the host, the
  co-host, the host again.
\<close>

definition example_segments :: "segment list" where
  "example_segments =
     [\<lparr>seg_index = 0, seg_speaker = ''host'', seg_text = ''Hello there.'',
       seg_emotion_tag = '''', seg_raw_text = ''HOST: Hello there.''\<rparr>,
      \<lparr>seg_index = 1, seg_speaker = ''cohost'', seg_text = ''Hi!'',
       seg_emotion_tag = '''', seg_raw_text = ''CO-HOST: Hi!''\<rparr>,
      \<lparr>seg_index = 2, seg_speaker = ''host'', seg_text = ''How are you?'',
       seg_emotion_tag = '''', seg_raw_text = ''HOST: How are you?''\<rparr>]"

text \<open>The three turns as a script.\<close>

definition example_script :: script where
  "example_script =
     \<lparr>script_format = PODCAST, script_topic = ''greetings'', script_segments = example_segments\<rparr>"

text \<open>
  Three artifacts appended in the order 2, 0, 1; a world in which the files of turns 0 and
  2 exist and the file of turn 1 is missing; a world with no file at all.
\<close>

definition example_artifacts :: "generated_audio list" where
  "example_artifacts =
     [\<lparr>ga_segment_index = 2, ga_file_path = joinpath ''run/audio'' ''002_host.mp3'',
       ga_request_id = ''r3'', ga_voice_id = ''cjVigY5qzO86Huf0OWal''\<rparr>,
      \<lparr>ga_segment_index = 0, ga_file_path = joinpath ''run/audio'' ''000_host.mp3'',
       ga_request_id = ''r1'', ga_voice_id = ''cjVigY5qzO86Huf0OWal''\<rparr>,
      \<lparr>ga_segment_index = 1, ga_file_path = joinpath ''run/audio'' ''001_cohost.mp3'',
       ga_request_id = ''r2'', ga_voice_id = ''TX3LPaxmHKxFdv7VOQHJ''\<rparr>]"


definition empty_world :: world where
  "empty_world = \<lparr>w_files = Map.empty, w_sent = []\<rparr>"

text \<open>
  A merge process that exits with status zero and writes the output file, and a synthesis
  client that answers every request, numbering its request ids \<open>r1\<close>, \<open>r2\<close>, ...
\<close>

definition example_ffmpeg :: merge_process where
  "example_ffmpeg fs concat_txt output = (True, fs(output \<mapsto> ''merged''))"

definition example_client :: tts_client where
  "example_client history request =
     Inr \<lparr>resp_request_id = Some (''r'' @ digits (length history + 1)), resp_data = ''audio''\<rparr>"

section \<open>Whitespace trimming\<close>

lemma lstrip_empty_iff: "lstrip s = [] \<longleftrightarrow> (\<forall>c\<in>set s. is_space c)"
  by (simp add: lstrip_def dropWhile_eq_Nil_conv)

lemma rstrip_empty_iff: "rstrip s = [] \<longleftrightarrow> (\<forall>c\<in>set s. is_space c)"
  by (simp add: rstrip_def dropWhile_eq_Nil_conv)

lemma strip_empty_iff: "strip s = [] \<longleftrightarrow> (\<forall>c\<in>set s. is_space c)"
proof
  assume "strip s = []"
  then have a: "\<forall>c\<in>set (lstrip s). is_space c"
    by (simp add: strip_def rstrip_empty_iff)
  show "\<forall>c\<in>set s. is_space c"
  proof (rule ccontr)
    assume "\<not> (\<forall>c\<in>set s. is_space c)"
    then have "lstrip s \<noteq> []" by (simp add: lstrip_empty_iff)
    then have "\<not> is_space (hd (lstrip s))"
      unfolding lstrip_def by (rule hd_dropWhile)
    moreover have "hd (lstrip s) \<in> set (lstrip s)"
      using \<open>lstrip s \<noteq> []\<close> by simp
    ultimately show False using a by blast
  qed
next
  assume "\<forall>c\<in>set s. is_space c"
  then have "lstrip s = []" by (simp add: lstrip_empty_iff)
  then show "strip s = []" by (simp add: strip_def rstrip_def)
qed

lemma rstrip_append_space:
  assumes "\<forall>c\<in>set w. is_space c"
  shows "rstrip (a @ w) = rstrip a"
  using assms by (simp add: rstrip_def dropWhile_append)

lemma strip_append_space:
  assumes "\<forall>c\<in>set w. is_space c"
  shows "strip (a @ w) = strip a"
proof (cases "\<forall>c\<in>set a. is_space c")
  case True
  with assms have "\<forall>c\<in>set (a @ w). is_space c" by auto
  then have "strip (a @ w) = []" by (simp only: strip_empty_iff)
  moreover from True have "strip a = []" by (simp only: strip_empty_iff)
  ultimately show ?thesis by simp
next
  case False
  then have "lstrip (a @ w) = lstrip a @ w"
    by (auto simp: lstrip_def dropWhile_append)
  then show ?thesis
    using assms by (simp add: strip_def rstrip_append_space)
qed

lemma rstrip_idem: "rstrip (rstrip s) = rstrip s"
  by (simp add: rstrip_def)

lemma lstrip_rstrip_lstrip: "lstrip (rstrip (lstrip s)) = rstrip (lstrip s)"
proof (cases "lstrip s = []")
  case True
  then have "rstrip (lstrip s) = []" by (simp only: rstrip_def rev.simps dropWhile.simps)
  then show ?thesis by (simp only: lstrip_def dropWhile.simps)
next
  case False
  then have h: "\<not> is_space (hd (lstrip s))"
    unfolding lstrip_def by (rule hd_dropWhile)
  obtain x xs where xs: "lstrip s = x # xs" using False by (cases "lstrip s") auto
  with h have nx: "\<not> is_space x" by simp
  have "rstrip (x # xs) \<noteq> []"
    using nx by (simp add: rstrip_empty_iff)
  moreover have "\<exists>ys. rstrip (x # xs) @ ys = x # xs"
    unfolding rstrip_def
    by (metis rev_append rev_rev_ident takeWhile_dropWhile_id)
  ultimately obtain zs where "rstrip (x # xs) = x # zs"
    by (cases "rstrip (x # xs)") auto
  then show ?thesis using nx xs by (simp add: lstrip_def)
qed

lemma strip_idem: "strip (strip s) = strip s"
  by (simp add: strip_def lstrip_rstrip_lstrip rstrip_idem)

lemma strip_replicate:
  assumes "\<not> is_space c"
  shows "strip (replicate n c) = replicate n c"
proof (cases n)
  case 0
  then show ?thesis by (simp add: strip_def lstrip_def rstrip_def)
next
  case (Suc m)
  have "rev (replicate n c) = replicate n c" by simp
  moreover have "dropWhile is_space (replicate n c) = replicate n c"
    using assms Suc by simp
  ultimately show ?thesis by (simp add: strip_def lstrip_def rstrip_def)
qed

lemma set_slice_to: "set (slice_to n xs) \<subseteq> set xs"
  by (auto simp: slice_to_def dest: in_set_takeD)

section \<open>Chunker: the two loops\<close>

lemma split_sentences_loop_concat:
  "split_sentences_loop s parts current = (parts', current')
   \<Longrightarrow> concat parts' @ current' = concat parts @ current @ s"
  by (induction s parts current rule: split_sentences_loop.induct)
     (auto split: if_splits)

lemma concat_split_sentences: "concat (split_sentences s) = s"
proof -
  obtain parts current where l: "split_sentences_loop s [] [] = (parts, current)"
    by (cases "split_sentences_loop s [] []")
  from split_sentences_loop_concat [OF l] show ?thesis
    by (auto simp: split_sentences_def l)
qed

lemma split_sentences_loop_no_terminator:
  "\<forall>c\<in>set s. c \<notin> set ''.!?''
   \<Longrightarrow> split_sentences_loop s parts current = (parts, current @ s)"
  by (induction s arbitrary: current) auto

lemma split_sentences_no_terminator:
  assumes "\<forall>c\<in>set s. c \<notin> set ''.!?''" and "s \<noteq> []"
  shows "split_sentences s = [s]"
  using assms by (simp add: split_sentences_def split_sentences_loop_no_terminator)

lemma split_into_chunks_no_terminator:
  assumes "\<forall>c\<in>set s. c \<notin> set ''.!?''" and "limit < int (length s)"
    and "strip s \<noteq> []"
  shows "split_into_chunks s limit = [strip s]"
proof -
  from assms(3) have "s \<noteq> []" by (auto simp: strip_empty_iff)
  with assms(1) have "split_sentences s = [s]"
    by (rule split_sentences_no_terminator)
  with assms(2,3) show ?thesis
    by (simp add: split_into_chunks_def)
qed

text \<open>
  The loop of \<open>split_into_chunks\<close> cuts the sentences into consecutive groups: each chunk
  it appends is the trimmed concatenation of one group, and \<open>current\<close> holds the last
  group, still open.
\<close>

lemma chunks_loop_groups:
  "chunks_loop limit ss chunks current = (chunks', current') \<Longrightarrow> current = concat g0
   \<Longrightarrow> \<exists>gs g'. chunks' = chunks @ map (\<lambda>g. strip (concat g)) gs \<and> current' = concat g'
         \<and> concat gs @ g' = g0 @ ss"
proof (induction ss arbitrary: chunks current g0)
  case Nil
  then show ?case by auto
next
  case (Cons s rest)
  show ?case
  proof (cases "current \<noteq> [] \<and> int (length current) + int (length s) > limit")
    case True
    with Cons.prems have l: "chunks_loop limit rest (chunks @ [strip current]) s = (chunks', current')"
      by simp
    have "s = concat [s]" by simp
    from Cons.IH [OF l this] obtain gs g' where
      h: "chunks' = (chunks @ [strip current]) @ map (\<lambda>g. strip (concat g)) gs"
         "current' = concat g'" "concat gs @ g' = [s] @ rest" by blast
    have "chunks' = chunks @ map (\<lambda>g. strip (concat g)) (g0 # gs)"
      using h(1) Cons.prems(2) by simp
    moreover have "concat (g0 # gs) @ g' = g0 @ s # rest"
      using h(3) by simp
    ultimately show ?thesis using h(2) by blast
  next
    case False
    with Cons.prems have l: "chunks_loop limit rest chunks (current @ s) = (chunks', current')"
      by auto
    have "current @ s = concat (g0 @ [s])" using Cons.prems(2) by simp
    from Cons.IH [OF l this] show ?thesis by simp
  qed
qed

section \<open>Chunker: text within the limit\<close>

text \<open>
  C2: a text whose length is at most the limit comes back as the one-element list holding
  the text itself, unchanged.
\<close>

theorem split_into_chunks_short:
  assumes "int (length text) \<le> limit"
  shows "split_into_chunks text limit = [text]"
  using assms by (simp add: split_into_chunks_def)

theorem split_into_chunks_short_witness:
  "int (length ''Hello world. '') \<le> 4000 \<and> split_into_chunks ''Hello world. '' 4000 = [''Hello world. '']"
  using split_into_chunks_short [of "''Hello world. ''" 4000] by simp

section \<open>Chunker: a single sentence longer than the limit\<close>

text \<open>
  C1: for a text longer than the limit, every chunk is at most the limit plus a bounded
  margin long, and a text with no sentence terminator comes back as one chunk holding its
  first \<open>limit\<close> characters; 5000 characters without a terminator and the limit 4000
  give one chunk of 4000 characters. The code does otherwise: the whole sentence becomes
  the running chunk, the final flush appends it, and the truncating fallback is not
  reached. The theorem is the code's result on that input: one chunk of 5000 characters.
\<close>

theorem split_into_chunks_long_sentence:
  "split_into_chunks (replicate 5000 CHR ''A'') 4000 = [replicate 5000 CHR ''A'']"
proof -
  have sp: "\<not> is_space CHR ''A''" by (simp add: is_space_def)
  have "\<forall>c\<in>set (replicate 5000 CHR ''A''). c \<notin> set ''.!?''" by simp
  moreover have "4000 < int (length (replicate 5000 CHR ''A''))" by simp
  moreover have "strip (replicate 5000 CHR ''A'') \<noteq> []"
    by (simp add: strip_replicate [OF sp])
  ultimately have "split_into_chunks (replicate 5000 CHR ''A'') 4000 = [strip (replicate 5000 CHR ''A'')]"
    by (rule split_into_chunks_no_terminator)
  then show ?thesis by (simp add: strip_replicate [OF sp])
qed

section \<open>Chunker: the sentences are kept\<close>

text \<open>
  C3: the chunks reproduce the text's sequence of sentence-like units, none dropped,
  duplicated or reordered, up to the whitespace trimmed where a chunk is flushed. The
  units of \<open>_split_sentences\<close> concatenate to the text, and they can be cut into
  consecutive groups such that the chunks, trimmed, are the trimmed concatenations of
  the groups, in order.
\<close>

theorem split_into_chunks_keeps_sentences:
  "concat (split_sentences s) = s \<and>
   (\<exists>groups. concat groups = split_sentences s \<and>
      map strip (split_into_chunks s limit) = map (\<lambda>g. strip (concat g)) groups)"
proof
  show "concat (split_sentences s) = s" by (rule concat_split_sentences)
next
  let ?ss = "split_sentences s"
  let ?sc = "\<lambda>g. strip (concat g)"
  show "\<exists>groups. concat groups = ?ss \<and> map strip (split_into_chunks s limit) = map ?sc groups"
  proof (cases "int (length s) \<le> limit")
    case True
    then have "map strip (split_into_chunks s limit) = map ?sc [?ss]"
      by (simp add: split_into_chunks_def concat_split_sentences)
    moreover have "concat [?ss] = ?ss" by simp
    ultimately show ?thesis by blast
  next
    case False
    obtain chunks current where l: "chunks_loop limit ?ss [] [] = (chunks, current)"
      by (cases "chunks_loop limit ?ss [] []")
    have "[] = concat ([] :: string list)" by simp
    from chunks_loop_groups [OF l this] obtain gs g' where
      h: "chunks = map ?sc gs" "current = concat g'" "concat gs @ g' = ?ss" by auto
    show ?thesis
    proof (cases "strip current \<noteq> []")
      case True
      with False l have "split_into_chunks s limit = chunks @ [strip current]"
        by (simp add: split_into_chunks_def)
      then have "map strip (split_into_chunks s limit) = map ?sc (gs @ [g'])"
        using h(1,2) by (simp add: strip_idem)
      moreover have "concat (gs @ [g']) = ?ss" using h(3) by simp
      ultimately show ?thesis by blast
    next
      case blank: False
      then have ws: "\<forall>c\<in>set current. is_space c" by (simp add: strip_empty_iff)
      show ?thesis
      proof (cases "chunks = []")
        case True
        with blank False l have r: "split_into_chunks s limit = [slice_to limit s]"
          by (simp add: split_into_chunks_def)
        from True h(1) have "gs = []" by simp
        with h(2,3) have "current = concat ?ss" by simp
        then have "current = s" by (simp add: concat_split_sentences)
        with ws have "\<forall>c\<in>set (slice_to limit s). is_space c"
          using set_slice_to [of limit s] by blast
        then have "strip (slice_to limit s) = []" by (simp only: strip_empty_iff)
        with r blank \<open>current = concat ?ss\<close>
        have "map strip (split_into_chunks s limit) = map ?sc [?ss]" by simp
        moreover have "concat [?ss] = ?ss" by simp
        ultimately show ?thesis by blast
      next
        case False
        with blank \<open>\<not> int (length s) \<le> limit\<close> l
        have r: "split_into_chunks s limit = chunks"
          by (simp add: split_into_chunks_def)
        from False h(1) have "gs \<noteq> []" by auto
        then obtain gs0 gl where gs: "gs = gs0 @ [gl]"
          by (metis rev_exhaust)
        have "strip (concat (gl @ g')) = strip (concat gl)"
          using ws h(2) by (simp add: strip_append_space)
        then have "map strip (split_into_chunks s limit) = map ?sc (gs0 @ [gl @ g'])"
          using r h(1) gs by (simp add: strip_idem)
        moreover have "concat (gs0 @ [gl @ g']) = ?ss" using h(3) gs by simp
        ultimately show ?thesis by blast
      qed
    qed
  qed
qed

theorem split_into_chunks_keeps_sentences_witness:
  "split_sentences ''Hi there. How are you? Fine.'' = [''Hi there.'', '' How are you?'', '' Fine.'']
   \<and> split_into_chunks ''Hi there. How are you? Fine.'' 12 = [''Hi there.'', ''How are you?'', ''Fine.'']
   \<and> map (\<lambda>g. strip (concat g)) [[''Hi there.''], ['' How are you?''], ['' Fine.'']]
       = map strip (split_into_chunks ''Hi there. How are you? Fine.'' 12)"
  using split_into_chunks_keeps_sentences [of "''Hi there. How are you? Fine.''" 12]
  by (simp add: split_into_chunks_def split_sentences_def strip_def lstrip_def rstrip_def is_space_def)

section \<open>Voice resolution does not depend on the format\<close>

lemma voice_map_identity:
  "map_of (dict_get VOICE_MAP format_name []) normalized = Some field \<Longrightarrow> field = normalized"
  by (auto simp: VOICE_MAP_def dict_get_def split: if_splits)

text \<open>Whatever the format, the voice is the direct attribute lookup of the normalized role.\<close>

lemma resolve_voice_id_fallback:
  "resolve_voice_id role format_name config =
     getattr_voice (cfg_voices config) (dict_get SPEAKER_ALIASES (lower role) (lower role))
       (anchor (cfg_voices config))"
proof (cases "map_of (dict_get VOICE_MAP format_name []) (dict_get SPEAKER_ALIASES (lower role) (lower role))")
  case None
  then show ?thesis by (simp add: resolve_voice_id_def)
next
  case (Some field)
  then have "field = dict_get SPEAKER_ALIASES (lower role) (lower role)"
    by (rule voice_map_identity)
  with Some show ?thesis by (simp add: resolve_voice_id_def)
qed

text \<open>
  C10: \<open>resolve_voice_id\<close> returns the same voice for every format name, the empty one
  included, so the context resolver (which passes the empty format name) and the main
  loop (which passes the script's format) resolve a role to the same voice.
\<close>

theorem resolve_voice_id_format_independent:
  "resolve_voice_id role format_name config = resolve_voice_id role format_name' config
   \<and> resolve_voice_id role (format_value fmt) config = resolve_voice_id role '''' config"
  by (simp only: resolve_voice_id_fallback)

theorem resolve_voice_id_format_independent_witness:
  "resolve_voice_id ''SIDE-B'' ''debate'' default_config = ''EXAVITQu4vr4xnSAxGW1''
   \<and> resolve_voice_id ''SIDE-B'' '''' default_config = ''EXAVITQu4vr4xnSAxGW1''
   \<and> resolve_voice_id ''UNKNOWN_SPEAKER'' ''podcast'' default_config = ''cjVigY5qzO86Huf0OWal''"
  using resolve_voice_id_format_independent [of "''SIDE-B''" "''debate''" default_config "''''" DEBATE]
  by (simp add: resolve_voice_id_def default_config_def default_voices_def getattr_voice_def
        voice_attr_def dict_get_def SPEAKER_ALIASES_def VOICE_MAP_def lower_def lower_char_def
        uppercase_def lowercase_def)

section \<open>Context resolver: the window of three turns\<close>

lemma py_index_nat: "j < length xs \<Longrightarrow> py_index xs (int j) = Inr (xs ! j)"
  by (simp add: py_index_def)















section \<open>Continuity tracker: the last three ids\<close>





section \<open>Synthesizer: the context of each chunk\<close>

lemma generate_segment_sent:
  "w_sent (snd (generate_segment client text voice_id model_id output_format previous_text
                  next_text previous_request_ids out_path w)) =
     w_sent w @ [convert_request text voice_id model_id output_format previous_text next_text
                   previous_request_ids]"
  by (simp add: generate_segment_def write_file_def Let_def split: sum.splits)

lemma generate_segment_error:
  "fst (generate_segment client text voice_id model_id output_format previous_text
          next_text previous_request_ids out_path w) = Inl e \<Longrightarrow> \<exists>failure. e = SynthesisFailure failure"
  by (auto simp: generate_segment_def Let_def split: sum.splits)

lemma chunk_body_sent:
  assumes m: "m < length chunks"
  shows "w_sent (snd (chunk_body client config audio_dir seg voice_id prev_text next_text prev_ids
                        chunks (m, chunks ! m) chunk_files voice_request_ids w)) =
           w_sent w @ [convert_request (chunks ! m) voice_id (cfg_model config) (cfg_output_format config)
                         (or_none (spec_chunk_previousText chunks m prev_text))
                         (or_none (spec_chunk_nextText chunks m next_text)) (or_none prev_ids)]
         \<and> (\<forall>e. fst (chunk_body client config audio_dir seg voice_id prev_text next_text prev_ids
                        chunks (m, chunks ! m) chunk_files voice_request_ids w) = Inl e
               \<longrightarrow> (\<exists>failure. e = SynthesisFailure failure))"
proof -
  have p: "(if m > 0 then map_sum id (slice_last 200) (py_index chunks (int m - 1)) else Inr prev_text)
           = Inr (spec_chunk_previousText chunks m prev_text)"
  proof (cases "m > 0")
    case True
    then have "int m - 1 = int (m - 1)" by simp
    moreover have "m - 1 < length chunks" using m by simp
    ultimately have "py_index chunks (int m - 1) = Inr (chunks ! (m - 1))"
      by (simp only: py_index_nat)
    with True show ?thesis by (simp add: spec_chunk_previousText_def)
  next
    case False
    then show ?thesis by (simp add: spec_chunk_previousText_def)
  qed
  have n: "(if int m < int (length chunks) - 1
            then map_sum id (take 200) (py_index chunks (int m + 1)) else Inr next_text)
           = Inr (spec_chunk_nextText chunks m next_text)"
  proof (cases "m + 1 < length chunks")
    case True
    have "int m + 1 = int (m + 1)" by simp
    with True have "py_index chunks (int m + 1) = Inr (chunks ! (m + 1))"
      by (simp only: py_index_nat)
    with True show ?thesis by (simp add: spec_chunk_nextText_def)
  next
    case False
    then have "\<not> int m < int (length chunks) - 1" by linarith
    with False show ?thesis by (simp add: spec_chunk_nextText_def)
  qed
  let ?g = "generate_segment client (chunks ! m) voice_id (cfg_model config)
              (cfg_output_format config) (or_none (spec_chunk_previousText chunks m prev_text))
              (or_none (spec_chunk_nextText chunks m next_text)) (or_none prev_ids)"
  have body: "chunk_body client config audio_dir seg voice_id prev_text next_text prev_ids
                 chunks (m, chunks ! m) chunk_files voice_request_ids w =
              (let out_path =
                 (if length chunks > 1
                  then joinpath audio_dir
                         (fmt_03d (seg_index seg) @ ''_'' @ seg_speaker seg @ ''_chunk'' @ digits m @ ''.mp3'')
                  else joinpath audio_dir (fmt_03d (seg_index seg) @ ''_'' @ seg_speaker seg @ ''.mp3''))
               in case ?g out_path w of
                    (Inl e, w') \<Rightarrow> (Inl e, w')
                  | (Inr request_id, w') \<Rightarrow>
                      (Inr (chunk_files @ [out_path],
                            record_id voice_request_ids voice_id request_id), w'))"
    unfolding chunk_body_def fst_conv snd_conv Let_def p n by simp
  let ?out = "(if length chunks > 1
                then joinpath audio_dir
                       (fmt_03d (seg_index seg) @ ''_'' @ seg_speaker seg @ ''_chunk'' @ digits m @ ''.mp3'')
                else joinpath audio_dir (fmt_03d (seg_index seg) @ ''_'' @ seg_speaker seg @ ''.mp3''))"
  obtain r w1 where g: "?g ?out w = (r, w1)" by (cases "?g ?out w")
  have sent: "w_sent w1 = w_sent w @ [convert_request (chunks ! m) voice_id (cfg_model config)
                 (cfg_output_format config) (or_none (spec_chunk_previousText chunks m prev_text))
                 (or_none (spec_chunk_nextText chunks m next_text)) (or_none prev_ids)]"
    using generate_segment_sent [of client "chunks ! m" voice_id "cfg_model config"
            "cfg_output_format config" "or_none (spec_chunk_previousText chunks m prev_text)"
            "or_none (spec_chunk_nextText chunks m next_text)" "or_none prev_ids" ?out w]
    by (simp only: g snd_conv)
  have err: "\<exists>failure. e = SynthesisFailure failure" if "r = Inl e" for e
    using generate_segment_error [of client "chunks ! m" voice_id "cfg_model config"
            "cfg_output_format config" "or_none (spec_chunk_previousText chunks m prev_text)"
            "or_none (spec_chunk_nextText chunks m next_text)" "or_none prev_ids" ?out w e] that
    by (simp only: g fst_conv)
  show ?thesis
  proof (cases r)
    case (Inl e)
    with g have "chunk_body client config audio_dir seg voice_id prev_text next_text prev_ids
                 chunks (m, chunks ! m) chunk_files voice_request_ids w = (Inl e, w1)"
      by (simp add: body Let_def)
    with sent err [OF Inl] show ?thesis by simp
  next
    case (Inr request_id)
    with g have "chunk_body client config audio_dir seg voice_id prev_text next_text prev_ids
                 chunks (m, chunks ! m) chunk_files voice_request_ids w =
                 (Inr (chunk_files @ [?out], record_id voice_request_ids voice_id request_id), w1)"
      by (simp add: body Let_def)
    with sent show ?thesis by simp
  qed
qed

lemma chunk_loop_sent:
  "m \<le> length chunks \<Longrightarrow>
   \<exists>n. m \<le> n \<and> n \<le> length chunks \<and>
     w_sent (snd (chunk_loop client config audio_dir seg voice_id prev_text next_text prev_ids chunks
                    (enumerate m (drop m chunks)) chunk_files voice_request_ids w)) =
       w_sent w @ map (\<lambda>i. convert_request (chunks ! i) voice_id (cfg_model config)
                          (cfg_output_format config)
                          (or_none (spec_chunk_previousText chunks i prev_text))
                          (or_none (spec_chunk_nextText chunks i next_text)) (or_none prev_ids))
                    [m..<n] \<and>
     (case fst (chunk_loop client config audio_dir seg voice_id prev_text next_text prev_ids chunks
                  (enumerate m (drop m chunks)) chunk_files voice_request_ids w) of
        Inl e \<Rightarrow> (\<exists>failure. e = SynthesisFailure failure) \<and> m < n
      | Inr result \<Rightarrow> n = length chunks)"
proof (induction "length chunks - m" arbitrary: m chunk_files voice_request_ids w)
  case 0
  then have "drop m chunks = []" by simp
  then show ?case using 0 by auto
next
  case (Suc d)
  let ?req = "\<lambda>i. convert_request (chunks ! i) voice_id (cfg_model config)
                          (cfg_output_format config)
                          (or_none (spec_chunk_previousText chunks i prev_text))
                          (or_none (spec_chunk_nextText chunks i next_text)) (or_none prev_ids)"
  from Suc.hyps(2) have m: "m < length chunks" by simp
  then have items: "enumerate m (drop m chunks) = (m, chunks ! m) # enumerate (Suc m) (drop (Suc m) chunks)"
    by (simp add: Cons_nth_drop_Suc [symmetric])
  obtain r w1 where b: "chunk_body client config audio_dir seg voice_id prev_text next_text prev_ids
                          chunks (m, chunks ! m) chunk_files voice_request_ids w = (r, w1)"
    by (cases "chunk_body client config audio_dir seg voice_id prev_text next_text prev_ids
                          chunks (m, chunks ! m) chunk_files voice_request_ids w")
  from chunk_body_sent [OF m, of client config audio_dir seg voice_id prev_text next_text prev_ids
         chunk_files voice_request_ids w]
  have sent1: "w_sent w1 = w_sent w @ [?req m]"
    and err1: "\<And>e. r = Inl e \<Longrightarrow> \<exists>failure. e = SynthesisFailure failure"
    by (simp_all only: b fst_conv snd_conv)
  show ?case
  proof (cases r)
    case (Inl e)
    with b items have l: "chunk_loop client config audio_dir seg voice_id prev_text next_text prev_ids
                        chunks (enumerate m (drop m chunks)) chunk_files voice_request_ids w = (Inl e, w1)"
      by simp
    have "[m..<Suc m] = [m]" by simp
    with sent1 have "w_sent w1 = w_sent w @ map ?req [m..<Suc m]" by simp
    with l err1 [OF Inl] m show ?thesis
      by (intro exI [of _ "Suc m"]) simp
  next
    case (Inr st)
    obtain cf' vri' where st: "st = (cf', vri')" by (cases st)
    from b items Inr st
    have l: "chunk_loop client config audio_dir seg voice_id prev_text next_text prev_ids
               chunks (enumerate m (drop m chunks)) chunk_files voice_request_ids w =
             chunk_loop client config audio_dir seg voice_id prev_text next_text prev_ids
               chunks (enumerate (Suc m) (drop (Suc m) chunks)) cf' vri' w1"
      by simp
    have "d = length chunks - Suc m" using Suc.hyps(2) by simp
    moreover have "Suc m \<le> length chunks" using m by simp
    ultimately obtain n where n: "Suc m \<le> n" "n \<le> length chunks"
      "w_sent (snd (chunk_loop client config audio_dir seg voice_id prev_text next_text prev_ids
                  chunks (enumerate (Suc m) (drop (Suc m) chunks)) cf' vri' w1)) =
         w_sent w1 @ map ?req [Suc m..<n]"
      "(case fst (chunk_loop client config audio_dir seg voice_id prev_text next_text prev_ids
                  chunks (enumerate (Suc m) (drop (Suc m) chunks)) cf' vri' w1) of
          Inl e \<Rightarrow> (\<exists>failure. e = SynthesisFailure failure) \<and> Suc m < n
        | Inr result \<Rightarrow> n = length chunks)"
      using Suc.hyps(1) [of "Suc m" cf' vri' w1] by blast
    have "[m..<n] = m # [Suc m..<n]" using n(1) by (simp add: upt_conv_Cons)
    with n(3) sent1
    have s: "w_sent (snd (chunk_loop client config audio_dir seg voice_id prev_text next_text prev_ids
                  chunks (enumerate (Suc m) (drop (Suc m) chunks)) cf' vri' w1)) =
         w_sent w @ map ?req [m..<n]" by simp
    have c: "(case fst (chunk_loop client config audio_dir seg voice_id prev_text next_text prev_ids
                  chunks (enumerate (Suc m) (drop (Suc m) chunks)) cf' vri' w1) of
          Inl e \<Rightarrow> (\<exists>failure. e = SynthesisFailure failure) \<and> m < n
        | Inr result \<Rightarrow> n = length chunks)"
      using n(4) by (auto split: sum.splits)
    from n(1) have "m \<le> n" by simp
    with n(2) s c show ?thesis
      unfolding l by blast
  qed
qed



section \<open>Synthesizer: no context under eleven_v3\<close>

lemma convert_request_eleven_v3:
  "arg_previous_text (convert_request t v ''eleven_v3'' f p n ids) = None
   \<and> arg_next_text (convert_request t v ''eleven_v3'' f p n ids) = None
   \<and> arg_previous_request_ids (convert_request t v ''eleven_v3'' f p n ids) = None"
  by (simp add: convert_request_def)

lemma concat_files_sent: "w_sent (snd (concat_files ffmpeg files output w)) = w_sent w"
  by (simp add: concat_files_def write_file_def unlink_def Let_def split: prod.splits)

lemma fold_unlink_sent: "w_sent (fold unlink files w) = w_sent w"
  by (induction files arbitrary: w) (simp_all add: unlink_def)

lemma chunk_loop_eleven_v3:
  assumes v3: "cfg_model config = ''eleven_v3''"
  shows "\<forall>r\<in>set (w_sent (snd (chunk_loop client config audio_dir seg voice_id prev_text next_text
                      prev_ids chunks (enumerate 0 chunks) chunk_files voice_request_ids w))).
           r \<in> set (w_sent w) \<or>
           (arg_previous_text r = None \<and> arg_next_text r = None \<and> arg_previous_request_ids r = None)"
proof -
  from chunk_loop_sent [of 0 chunks client config audio_dir seg voice_id prev_text next_text
          prev_ids chunk_files voice_request_ids w]
  obtain n where "w_sent (snd (chunk_loop client config audio_dir seg voice_id prev_text next_text
                      prev_ids chunks (enumerate 0 chunks) chunk_files voice_request_ids w)) =
       w_sent w @ map (\<lambda>i. convert_request (chunks ! i) voice_id (cfg_model config)
                          (cfg_output_format config)
                          (or_none (spec_chunk_previousText chunks i prev_text))
                          (or_none (spec_chunk_nextText chunks i next_text)) (or_none prev_ids))
                    [0..<n]"
    by auto
  then show ?thesis
    using convert_request_eleven_v3 by (auto simp: v3)
qed

lemma turn_body_eleven_v3:
  assumes v3: "cfg_model config = ''eleven_v3''"
  shows "\<forall>r\<in>set (w_sent (snd (turn_body client ffmpeg script config audio_dir seg results
                      voice_request_ids w))).
           r \<in> set (w_sent w) \<or>
           (arg_previous_text r = None \<and> arg_next_text r = None \<and> arg_previous_request_ids r = None)"
proof (cases "get_adjacent_text (script_segments script) (seg_index seg)
                (resolve_voice_id (seg_speaker seg) (format_value (script_format script)) config) config")
  case (Inl e)
  then show ?thesis by (simp add: turn_body_def)
next
  case (Inr ctx)
  obtain prev_text next_text where ctx: "ctx = (prev_text, next_text)" by (cases ctx)
  let ?voice = "resolve_voice_id (seg_speaker seg) (format_value (script_format script)) config"
  let ?chunks = "split_into_chunks (seg_text seg) CHUNK_LIMIT"
  let ?loop = "chunk_loop client config audio_dir seg ?voice prev_text next_text
                 (history_for voice_request_ids ?voice) ?chunks (enumerate 0 ?chunks) []
                 voice_request_ids w"
  have loop: "\<forall>r\<in>set (w_sent (snd ?loop)). r \<in> set (w_sent w) \<or>
           (arg_previous_text r = None \<and> arg_next_text r = None \<and> arg_previous_request_ids r = None)"
    using v3 by (rule chunk_loop_eleven_v3)
  obtain res w1 where l: "?loop = (res, w1)" by (cases ?loop)
  with loop have w1: "\<forall>r\<in>set (w_sent w1). r \<in> set (w_sent w) \<or>
           (arg_previous_text r = None \<and> arg_next_text r = None \<and> arg_previous_request_ids r = None)"
    by simp
  have "w_sent (snd (turn_body client ffmpeg script config audio_dir seg results voice_request_ids w))
          = w_sent w1"
  proof (cases res)
    case (Inl e)
    with Inr ctx l show ?thesis by (simp add: turn_body_def Let_def)
  next
    case (Inr st)
    obtain chunk_files vri where st: "st = (chunk_files, vri)" by (cases st)
    show ?thesis
    proof (cases "length chunk_files > 1")
      case True
      let ?final = "joinpath audio_dir (fmt_03d (seg_index seg) @ ''_'' @ seg_speaker seg @ ''.mp3'')"
      obtain cr w2 where c: "concat_files ffmpeg chunk_files ?final w1 = (cr, w2)"
        by (cases "concat_files ffmpeg chunk_files ?final w1")
      with concat_files_sent [of ffmpeg chunk_files ?final w1] have "w_sent w2 = w_sent w1" by simp
      with \<open>get_adjacent_text _ _ _ _ = Inr ctx\<close> ctx l Inr st True c show ?thesis
        by (cases cr) (simp_all add: turn_body_def Let_def fold_unlink_sent)
    next
      case False
      with \<open>get_adjacent_text _ _ _ _ = Inr ctx\<close> ctx l Inr st show ?thesis
        by (cases chunk_files) (simp_all add: turn_body_def Let_def)
    qed
  qed
  with w1 show ?thesis by simp
qed

lemma turn_loop_eleven_v3:
  assumes v3: "cfg_model config = ''eleven_v3''"
  shows "\<forall>r\<in>set (w_sent (snd (turn_loop client ffmpeg script config audio_dir segs results
                      voice_request_ids w))).
           r \<in> set (w_sent w) \<or>
           (arg_previous_text r = None \<and> arg_next_text r = None \<and> arg_previous_request_ids r = None)"
proof (induction segs arbitrary: results voice_request_ids w)
  case Nil
  then show ?case by simp
next
  case (Cons seg rest)
  obtain res w1 where b: "turn_body client ffmpeg script config audio_dir seg results
                            voice_request_ids w = (res, w1)"
    by (cases "turn_body client ffmpeg script config audio_dir seg results voice_request_ids w")
  with turn_body_eleven_v3 [OF v3, of client ffmpeg script audio_dir seg results voice_request_ids w]
  have w1: "\<forall>r\<in>set (w_sent w1). r \<in> set (w_sent w) \<or>
           (arg_previous_text r = None \<and> arg_next_text r = None \<and> arg_previous_request_ids r = None)"
    by simp
  show ?case
  proof (cases res)
    case (Inl e)
    with b w1 show ?thesis by simp
  next
    case (Inr st)
    obtain results' vri' where st: "st = (results', vri')" by (cases st)
    with b Inr have "turn_loop client ffmpeg script config audio_dir (seg # rest) results
                       voice_request_ids w =
                     turn_loop client ffmpeg script config audio_dir rest results' vri' w1"
      by simp
    with Cons.IH [of results' vri' w1] w1 show ?thesis by auto
  qed
qed

lemma generate_audio_eleven_v3:
  assumes v3: "cfg_model config = ''eleven_v3''"
  shows "\<forall>r\<in>set (w_sent (snd (generate_audio client ffmpeg script config audio_dir w))).
           r \<in> set (w_sent w) \<or>
           (arg_previous_text r = None \<and> arg_next_text r = None \<and> arg_previous_request_ids r = None)"
proof -
  have "w_sent (snd (generate_audio client ffmpeg script config audio_dir w)) =
        w_sent (snd (turn_loop client ffmpeg script config audio_dir (script_segments script) []
                       empty_tracker w))"
    by (simp add: generate_audio_def split: prod.splits sum.splits)
  with turn_loop_eleven_v3 [OF v3] show ?thesis by simp
qed

text \<open>
  C9: under the model \<open>eleven_v3\<close>, the request the synthesis service receives has no
  previous text, no next text and no previous request ids, whatever context and history
  were computed for the chunk: the call and its outcome are the same for any two of them.
  So it is for every request \<open>generate_audio\<close> sends when the configured model is
  \<open>eleven_v3\<close>.
\<close>

theorem synthesis_calls_eleven_v3:
  "w_sent (snd (generate_segment client chunk_text voice_id ''eleven_v3'' output_format previous_text
                  next_text previous_request_ids out_path w)) =
     w_sent w @ [\<lparr>arg_text = chunk_text, arg_voice_id = voice_id, arg_model_id = ''eleven_v3'',
                  arg_output_format = output_format, arg_previous_text = None,
                  arg_next_text = None, arg_previous_request_ids = None\<rparr>]
   \<and> generate_segment client chunk_text voice_id ''eleven_v3'' output_format previous_text next_text
         previous_request_ids out_path w =
       generate_segment client chunk_text voice_id ''eleven_v3'' output_format previous_text' next_text'
         previous_request_ids' out_path w
   \<and> (cfg_model config = ''eleven_v3'' \<longrightarrow>
        (\<forall>r\<in>set (w_sent (snd (generate_audio client ffmpeg script config audio_dir w))).
           r \<in> set (w_sent w) \<or>
           (arg_previous_text r = None \<and> arg_next_text r = None
            \<and> arg_previous_request_ids r = None)))"
proof (intro conjI impI)
  show "w_sent (snd (generate_segment client chunk_text voice_id ''eleven_v3'' output_format previous_text
                  next_text previous_request_ids out_path w)) =
     w_sent w @ [\<lparr>arg_text = chunk_text, arg_voice_id = voice_id, arg_model_id = ''eleven_v3'',
                  arg_output_format = output_format, arg_previous_text = None,
                  arg_next_text = None, arg_previous_request_ids = None\<rparr>]"
    by (simp add: generate_segment_sent convert_request_def)
  show "generate_segment client chunk_text voice_id ''eleven_v3'' output_format previous_text next_text
         previous_request_ids out_path w =
       generate_segment client chunk_text voice_id ''eleven_v3'' output_format previous_text' next_text'
         previous_request_ids' out_path w"
    by (simp add: generate_segment_def convert_request_def)
  assume "cfg_model config = ''eleven_v3''"
  then show "\<forall>r\<in>set (w_sent (snd (generate_audio client ffmpeg script config audio_dir w))).
           r \<in> set (w_sent w) \<or>
           (arg_previous_text r = None \<and> arg_next_text r = None
            \<and> arg_previous_request_ids r = None)"
    by (rule generate_audio_eleven_v3)
qed

theorem synthesis_calls_eleven_v3_witness:
  "generate_segment example_client ''Two.'' ''cjVigY5qzO86Huf0OWal'' ''eleven_v3'' ''mp3_44100_128''
     (Some ''One.'') (Some ''Three.'') (Some [''r1'']) (joinpath ''run/audio'' ''000_host_chunk1.mp3'')
     empty_world =
   (Inr ''r1'',
    \<lparr>w_files = [joinpath ''run/audio'' ''000_host_chunk1.mp3'' \<mapsto> ''audio''],
     w_sent = [\<lparr>arg_text = ''Two.'', arg_voice_id = ''cjVigY5qzO86Huf0OWal'',
                arg_model_id = ''eleven_v3'', arg_output_format = ''mp3_44100_128'',
                arg_previous_text = None, arg_next_text = None,
                arg_previous_request_ids = None\<rparr>]\<rparr>)
   \<and> cfg_model default_config = ''eleven_v3''
   \<and> map (\<lambda>r. (arg_text r, arg_voice_id r, arg_previous_text r, arg_next_text r,
                 arg_previous_request_ids r))
         (w_sent (snd (generate_audio example_client example_ffmpeg example_script default_config
                         ''run/audio'' empty_world))) =
       [(''Hello there.'', ''cjVigY5qzO86Huf0OWal'', None, None, None),
        (''Hi!'', ''TX3LPaxmHKxFdv7VOQHJ'', None, None, None),
        (''How are you?'', ''cjVigY5qzO86Huf0OWal'', None, None, None)]"
proof -
  have run: "map (\<lambda>r. (arg_text r, arg_voice_id r, arg_previous_text r, arg_next_text r,
                 arg_previous_request_ids r))
         (w_sent (snd (generate_audio example_client example_ffmpeg example_script default_config
                         ''run/audio'' empty_world))) =
       [(''Hello there.'', ''cjVigY5qzO86Huf0OWal'', None, None, None),
        (''Hi!'', ''TX3LPaxmHKxFdv7VOQHJ'', None, None, None),
        (''How are you?'', ''cjVigY5qzO86Huf0OWal'', None, None, None)]"
    by code_simp
  have m: "cfg_model default_config = ''eleven_v3''"
    by (simp add: default_config_def)
  from synthesis_calls_eleven_v3 [of example_client "''Two.''" "''cjVigY5qzO86Huf0OWal''"
          "''mp3_44100_128''" "Some ''One.''" "Some ''Three.''" "Some [''r1'']"
          "joinpath ''run/audio'' ''000_host_chunk1.mp3''" empty_world]
  show ?thesis
    using run m
    by (simp add: generate_segment_def convert_request_def example_client_def empty_world_def
          write_file_def Let_def)
qed

section \<open>Final assembly\<close>



lemma final_file_paths_empty_iff:
  "final_file_paths w audio_files = [] \<longleftrightarrow> (\<forall>a\<in>set audio_files. \<not> path_exists w (ga_file_path a))"
  by (simp add: final_file_paths_def filter_empty_conv)



text \<open>
  C8: final assembly raises the empty-input error exactly when no artifact's file exists;
  nothing is written then and the merge process is not run. Any other error of final
  assembly is the failure of the merge process, raised exactly when that process exits
  non-zero, and a failed synthesis call raises a synthesis failure: three different errors.
\<close>

theorem concat_final_empty_input:
  "(fst (concat_final ffmpeg audio_files output w) = Inl (RuntimeError ''No audio files to concatenate'')
      \<longleftrightarrow> (\<forall>a\<in>set audio_files. \<not> path_exists w (ga_file_path a)))
   \<and> (fst (concat_final ffmpeg audio_files output w) = Inl (RuntimeError ''No audio files to concatenate'')
        \<longrightarrow> snd (concat_final ffmpeg audio_files output w) = w)
   \<and> (\<forall>e. fst (concat_final ffmpeg audio_files output w) = Inl e
          \<longrightarrow> e = RuntimeError ''No audio files to concatenate'' \<or> e = CalledProcessError)
   \<and> ((\<exists>a\<in>set audio_files. path_exists w (ga_file_path a))
        \<longrightarrow> (fst (concat_final ffmpeg audio_files output w) = Inl CalledProcessError
              \<longleftrightarrow> \<not> fst (ffmpeg (w_files (write_file (joinpath (path_parent output) ''concat.txt'')
                                      (manifest (final_file_paths w audio_files)) w))
                               (joinpath (path_parent output) ''concat.txt'') output)))
   \<and> fst (generate_segment client chunk_text voice_id model_id output_format previous_text
             next_text previous_request_ids out_path w')
        \<noteq> Inl (RuntimeError ''No audio files to concatenate'')"
proof -
  have gs: "fst (generate_segment client chunk_text voice_id model_id output_format previous_text
             next_text previous_request_ids out_path w')
        \<noteq> Inl (RuntimeError ''No audio files to concatenate'')"
    using generate_segment_error [of client chunk_text voice_id model_id output_format
            previous_text next_text previous_request_ids out_path w'
            "RuntimeError ''No audio files to concatenate''"]
    by auto
  show ?thesis
  proof (cases "final_file_paths w audio_files = []")
  case True
  then have "concat_final ffmpeg audio_files output w =
               (Inl (RuntimeError ''No audio files to concatenate''), w)"
    by (simp add: concat_final_def)
  moreover from True have "\<forall>a\<in>set audio_files. \<not> path_exists w (ga_file_path a)"
    by (simp only: final_file_paths_empty_iff)
  ultimately show ?thesis using gs by simp
next
  case False
  obtain ok fs where m: "ffmpeg (w_files (write_file (joinpath (path_parent output) ''concat.txt'')
                                      (manifest (final_file_paths w audio_files)) w))
                               (joinpath (path_parent output) ''concat.txt'') output = (ok, fs)"
    by (cases "ffmpeg (w_files (write_file (joinpath (path_parent output) ''concat.txt'')
                                      (manifest (final_file_paths w audio_files)) w))
                               (joinpath (path_parent output) ''concat.txt'') output")
  from False have r: "fst (concat_final ffmpeg audio_files output w) =
               (if ok then Inr output else Inl CalledProcessError)"
    by (simp add: concat_final_def Let_def m)
  from False have ex: "\<exists>a\<in>set audio_files. path_exists w (ga_file_path a)"
    by (simp add: final_file_paths_empty_iff)
  show ?thesis
  proof (cases ok)
    case True
    with r have "fst (concat_final ffmpeg audio_files output w) = Inr output" by simp
    with ex m True gs show ?thesis by simp
  next
    case False
    with r have "fst (concat_final ffmpeg audio_files output w) = Inl CalledProcessError" by simp
    with ex m False gs show ?thesis by simp
  qed
qed
qed

theorem concat_final_empty_input_witness:
  "concat_final example_ffmpeg example_artifacts (joinpath ''run'' ''final.mp3'') empty_world =
     (Inl (RuntimeError ''No audio files to concatenate''), empty_world)"
proof -
  have "\<forall>a\<in>set example_artifacts. \<not> path_exists empty_world (ga_file_path a)"
    by (simp add: path_exists_def empty_world_def)
  with concat_final_empty_input [of example_ffmpeg example_artifacts "joinpath ''run'' ''final.mp3''"
         empty_world]
  have "fst (concat_final example_ffmpeg example_artifacts (joinpath ''run'' ''final.mp3'') empty_world)
          = Inl (RuntimeError ''No audio files to concatenate'')"
    and "snd (concat_final example_ffmpeg example_artifacts (joinpath ''run'' ''final.mp3'') empty_world)
          = empty_world"
    by blast+
  then show ?thesis by (simp add: prod_eq_iff)
qed

end
